theory Spec2Isabelle
  imports Main "HOL-Library.Sublist"
begin

section \<open>Python values used by the view\<close>

text \<open>
  A Python \<open>str\<close> is an object: it has an identity (what \<open>is\<close> and \<open>is not\<close> compare)
  and a content (what \<open>==\<close> and \<open>in\<close> compare). Two objects with the same content may
  have different identities.
\<close>

record pystr =
  oid :: nat
  chars :: string

text \<open>
  What \<open>json.loads\<close> yields: \<open>None\<close>, a \<open>bool\<close>, a number (its value plays no part
  in the view), a \<open>str\<close>, a list or a dict.
\<close>

datatype json = JNull | JBool bool | JNum int | JStr string
  | JArr "json list" | JObj "(string \<times> json) list"

datatype pyuser = AnonymousUser | User int

datatype pyvalue = PNone | PBool bool | PStr pystr

datatype error = KeyError string | TypeError | AttributeError | NotImplementedError
  | RecursionError | JSONDecodeError

text \<open>
  The messages of the 400 responses are formatted string literals. A field that
  interpolates a \<open>str\<close> is written out; a field that interpolates a list or the header
  container is kept as the value whose \<open>repr\<close> Python prints.
\<close>

datatype fragment = Text string | Repr_list "string list" | Repr_headers "(string \<times> pystr) list"

type_synonym message = "fragment list"

datatype response = JsonResponse json | HttpResponseBadRequest message | HttpResponseNotAllowed

datatype returned = Response response | Value pyvalue

type_synonym outcome = "error + returned"

text \<open>
  \<open>request.headers\<close> is Django's header container: the association of header names
  to values, looked up by name. \<open>req_method\<close> is \<open>request.method\<close>, the HTTP verb as
  received. \<open>req_user\<close> is \<open>request.user\<close>, the attribute Django's authentication
  middleware attaches: \<open>None\<close> stands for a request object that has no such attribute.
\<close>

record request =
  headers :: "(string \<times> pystr) list"
  req_method :: string
  req_user :: "pyuser option"

record settings =
  ALLOWED_HOSTS :: "string list"

text \<open>
  The view object. \<open>route_selection_key\<close>, \<open>aws_api_gateway_id\<close> and
  \<open>expected_useragent_prefix\<close> are the class attributes a deployment configures;
  \<open>body\<close> is assigned by \<open>setup\<close> and holds whatever value the request body decodes
  to; \<open>slug\<close> is \<open>self.kwargs['slug']\<close>;
  \<open>http_method_names\<close> belongs to Django's \<open>View\<close>. \<open>extra_attrs\<close> holds the
  attributes of the object that the class body does not define (the handlers a subclass
  adds, what Django's \<open>View\<close> and \<open>object\<close> provide), each given by what calling it
  with the request yields.
\<close>

record view =
  route_selection_key :: string
  aws_api_gateway_id :: "pystr option"
  expected_useragent_prefix :: string
  http_method_names :: "string list"
  body :: json
  slug :: string
  extra_attrs :: "(string \<times> (request \<Rightarrow> outcome)) list"

definition required_headers :: "string list" where
  "required_headers =
     [''Host'', ''X-Real-Ip'', ''X-Forwarded-For'', ''X-Forwarded-Proto'', ''Connection'',
      ''Content-Length'', ''X-Forwarded-Port'', ''X-Amzn-Trace-Id'', ''Connectionid'',
      ''User-Agent'', ''X-Amzn-Apigateway-Api-Id'']"

definition required_connection_headers :: "string list" where
  "required_connection_headers =
     [''Cookie'', ''Origin'', ''Sec-Websocket-Extensions'', ''Sec-Websocket-Key'',
      ''Sec-Websocket-Version'']"

subsection \<open>Language primitives\<close>

text \<open>\<open>request.headers[k]\<close> raises \<open>KeyError\<close> on a name that is absent.\<close>

definition header :: "request \<Rightarrow> string \<Rightarrow> error + pystr" where
  "header r k = (case map_of (headers r) k of None \<Rightarrow> Inl (KeyError k) | Some s \<Rightarrow> Inr s)"

text \<open>\<open>k in request.headers.keys()\<close>.\<close>

definition has_header :: "request \<Rightarrow> string \<Rightarrow> bool" where
  "has_header r k = (map_of (headers r) k \<noteq> None)"

text \<open>\<open>a in b\<close> on two \<open>str\<close>: \<open>a\<close> occurs in \<open>b\<close> as a contiguous run.\<close>

fun str_in :: "string \<Rightarrow> string \<Rightarrow> bool" where
  "str_in xs [] = (xs = [])"
| "str_in xs (y # ys) = (prefix xs (y # ys) \<or> str_in xs ys)"

text \<open>\<open>str.lower()\<close> on the ASCII letters, which is what an HTTP verb is made of.\<close>

definition lower_char :: "char \<Rightarrow> char" where
  "lower_char c =
     (case map_of (zip ''ABCDEFGHIJKLMNOPQRSTUVWXYZ'' ''abcdefghijklmnopqrstuvwxyz'') c of
        Some l \<Rightarrow> l
      | None \<Rightarrow> c)"

definition lower :: "string \<Rightarrow> string" where
  "lower s = map lower_char s"

text \<open>
  Truth value of \<open>self.aws_api_gateway_id\<close>: \<open>None\<close> and the empty string are false.
\<close>

definition truthy :: "pystr option \<Rightarrow> bool" where
  "truthy g = (case g of None \<Rightarrow> False | Some s \<Rightarrow> chars s \<noteq> [])"

text \<open>\<open>str(x)\<close> as an interpolated field prints it, \<open>None\<close> as \<open>None\<close>.\<close>

definition str_of :: "pystr option \<Rightarrow> string" where
  "str_of g = (case g of None \<Rightarrow> ''None'' | Some s \<Rightarrow> chars s)"

text \<open>
  Evaluating a formatted string literal with interpolated fields builds a new \<open>str\<close>
  object. A new object's identity differs from the identity of every object that is alive
  at that moment; \<open>live_oids\<close> lists the objects the view and the request hold.
\<close>

definition fresh_oid :: "nat list \<Rightarrow> nat" where
  "fresh_oid live = Suc (fold max live 0)"

definition live_oids :: "view \<Rightarrow> request \<Rightarrow> nat list" where
  "live_oids v r =
     map (\<lambda>kv. oid (snd kv)) (headers r)
       @ (case aws_api_gateway_id v of None \<Rightarrow> [] | Some g \<Rightarrow> [oid g])"

definition format_str :: "view \<Rightarrow> request \<Rightarrow> string \<Rightarrow> pystr" where
  "format_str v r s = \<lparr>oid = fresh_oid (live_oids v r), chars = s\<rparr>"

text \<open>\<open>a is not b\<close>: the two operands are different objects.\<close>

definition is_not :: "pystr \<Rightarrow> pystr \<Rightarrow> bool" where
  "is_not a b = (oid a \<noteq> oid b)"

section \<open>The methods of WebSocketView\<close>

text \<open>
  The logger itself is left out: a call to it returns nothing and changes nothing the
  view reads. The arguments of a call are evaluated before it, so the debug line of
  \<open>connect\<close>, whose message reads \<open>request.user.pk\<close>, raises \<open>AttributeError\<close> on a
  request without a user.
\<close>

text \<open>
  The method \<open>setup\<close> (\<open>view_setup\<close> here). The second argument is \<open>None\<close> when
  \<open>request.body\<close> is empty and otherwise what \<open>json.loads(request.body)\<close> does: it
  raises on a body that is not JSON, or yields the decoded value. The third argument is
  the \<open>slug\<close> keyword argument of the URL.
\<close>

definition view_setup :: "view \<Rightarrow> (error + json) option \<Rightarrow> string \<Rightarrow> error + view" where
  "view_setup v loaded sl =
     (case loaded of
        None \<Rightarrow> Inr (v\<lparr>slug := sl, body := JObj []\<rparr>)
      | Some (Inl e) \<Rightarrow> Inl e
      | Some (Inr decoded) \<Rightarrow> Inr (v\<lparr>slug := sl, body := decoded\<rparr>))"

definition return_bad_request :: "message \<Rightarrow> outcome" where
  "return_bad_request msg = Inr (Response (HttpResponseBadRequest msg))"

definition route_selection_key_missing :: "view \<Rightarrow> request \<Rightarrow> outcome" where
  "route_selection_key_missing v r =
     return_bad_request
       [Text (''route_select_key '' @ route_selection_key v @ '' missing from request body.'')]"

definition missing_headers :: "view \<Rightarrow> request \<Rightarrow> outcome" where
  "missing_headers v r =
     return_bad_request
       [Text ''Some of the required headers are missing; Expected '', Repr_list required_headers,
        Text '', Received '', Repr_headers (headers r)]"

definition invalid_useragent :: "view \<Rightarrow> request \<Rightarrow> outcome" where
  "invalid_useragent v r =
     (case header r ''User-Agent'' of
        Inl e \<Rightarrow> Inl e
      | Inr ua \<Rightarrow>
          return_bad_request
            [Text (''Unexpected Useragent; Expected '' @ expected_useragent_prefix v
                   @ str_of (aws_api_gateway_id v) @ '', Received '' @ chars ua)])"

definition expected_headers :: "request \<Rightarrow> bool" where
  "expected_headers r = list_all (has_header r) required_headers"

definition expected_apigateway_id :: "view \<Rightarrow> request \<Rightarrow> error + pyvalue" where
  "expected_apigateway_id v r =
     (case aws_api_gateway_id v of
        None \<Rightarrow> Inr PNone
      | Some g \<Rightarrow>
          if chars g = [] then Inr (PStr g)
          else (case header r ''X-Amzn-Apigateway-Api-Id'' of
                  Inl e \<Rightarrow> Inl e
                | Inr h \<Rightarrow> Inr (PBool (is_not h g))))"

definition expected_useragent :: "view \<Rightarrow> request \<Rightarrow> error + bool" where
  "expected_useragent v r =
     (if truthy (aws_api_gateway_id v) then
        (case header r ''User-Agent'' of
           Inl e \<Rightarrow> Inl e
         | Inr ua \<Rightarrow>
             Inr (is_not ua
                    (format_str v r
                       (expected_useragent_prefix v @ str_of (aws_api_gateway_id v)))))
      else
        (case header r ''User-Agent'' of
           Inl e \<Rightarrow> Inl e
         | Inr ua \<Rightarrow> Inr (str_in (expected_useragent_prefix v) (chars ua))))"

definition check_allowed_hosts :: "settings \<Rightarrow> request \<Rightarrow> error + bool" where
  "check_allowed_hosts st r =
     (if ALLOWED_HOSTS st \<noteq> [] then
        (case header r ''Host'' of
           Inl e \<Rightarrow> Inl e
         | Inr h \<Rightarrow> if chars h \<notin> set (ALLOWED_HOSTS st) then Inr False else Inr True)
      else Inr True)"

definition check_host_is_in_origin :: "request \<Rightarrow> error + bool" where
  "check_host_is_in_origin r =
     (case header r ''Host'' of
        Inl e \<Rightarrow> Inl e
      | Inr h \<Rightarrow>
          (case header r ''Origin'' of
             Inl e \<Rightarrow> Inl e
           | Inr orig \<Rightarrow> if \<not> str_in (chars h) (chars orig) then Inr False else Inr True))"

definition expected_connection_headers :: "request \<Rightarrow> bool" where
  "expected_connection_headers r = list_all (has_header r) required_connection_headers"

definition connect :: "settings \<Rightarrow> view \<Rightarrow> request \<Rightarrow> outcome" where
  "connect st v r =
     (if \<not> expected_connection_headers r then
        return_bad_request
          [Text ''Missing headers; Expected '', Repr_list required_connection_headers,
           Text '', Received '', Repr_headers (headers r)]
      else
        (case check_allowed_hosts st r of
           Inl e \<Rightarrow> Inl e
         | Inr allowed \<Rightarrow>
             if \<not> allowed then
               (case header r ''Host'' of
                  Inl e \<Rightarrow> Inl e
                | Inr h \<Rightarrow>
                    return_bad_request
                      [Text (''Host '' @ chars h @ '' not in AllowedHosts ''),
                       Repr_list (ALLOWED_HOSTS st)])
             else
               (case check_host_is_in_origin r of
                  Inl e \<Rightarrow> Inl e
                | Inr within \<Rightarrow>
                    if \<not> within then
                      (case header r ''Host'' of
                         Inl e \<Rightarrow> Inl e
                       | Inr h \<Rightarrow>
                           return_bad_request
                             [Text (''Host '' @ chars h @ '' not in Origin '' @ chars h)])
                    else
                      (case req_user r of
                         None \<Rightarrow> Inl AttributeError
                       | Some u \<Rightarrow> Inr (Response (JsonResponse (JObj [])))))))"

definition disconnect :: "view \<Rightarrow> request \<Rightarrow> outcome" where
  "disconnect v r = Inr (Response (JsonResponse (JObj [])))"

definition default :: "view \<Rightarrow> request \<Rightarrow> outcome" where
  "default v r = Inl NotImplementedError"

section \<open>Handler resolution and dispatch\<close>

text \<open>
  What \<open>dispatch\<close> binds to its local \<open>handler\<close>: a bound method of the view or any
  other attribute of the object. \<open>H_not_callable\<close> stands for the attributes that hold
  data (a \<open>str\<close>, \<open>None\<close>, a list, a dict); \<open>H_wrong_arguments\<close> for the methods whose
  parameters do not accept the call \<open>handler(request, slug=...)\<close>.
\<close>

datatype handler =
    H_connect | H_disconnect | H_default
  | H_missing_headers | H_invalid_useragent | H_route_selection_key_missing
  | H_http_method_not_allowed | H_dispatch | H_setup
  | H_expected_headers | H_expected_apigateway_id | H_expected_useragent
  | H_expected_connection_headers
  | H_not_callable | H_wrong_arguments
  | H_extra "request \<Rightarrow> outcome"

text \<open>
  The names the class body of \<open>WebSocketView\<close> defines, with the two names of Django's
  \<open>View\<close> that \<open>dispatch\<close> itself reads.
\<close>

definition class_attrs :: "(string \<times> handler) list" where
  "class_attrs =
     [(''route_selection_key'', H_not_callable),
      (''model'', H_not_callable),
      (''body'', H_not_callable),
      (''aws_api_gateway_id'', H_not_callable),
      (''required_headers'', H_not_callable),
      (''required_connection_headers'', H_not_callable),
      (''expected_useragent_prefix'', H_not_callable),
      (''setup'', H_setup),
      (''_return_bad_request'', H_wrong_arguments),
      (''route_selection_key_missing'', H_route_selection_key_missing),
      (''missing_headers'', H_missing_headers),
      (''invalid_useragent'', H_invalid_useragent),
      (''_expected_headers'', H_expected_headers),
      (''_expected_apigateway_id'', H_expected_apigateway_id),
      (''_expected_useragent'', H_expected_useragent),
      (''_check_allowed_hosts'', H_wrong_arguments),
      (''_check_host_is_in_origin'', H_wrong_arguments),
      (''_expected_connection_headers'', H_expected_connection_headers),
      (''_add_user_to_request'', H_wrong_arguments),
      (''dispatch'', H_dispatch),
      (''connect'', H_connect),
      (''disconnect'', H_disconnect),
      (''default'', H_default),
      (''http_method_names'', H_not_callable),
      (''http_method_not_allowed'', H_http_method_not_allowed)]"

text \<open>
  Attribute lookup on the view object. The names of the class body resolve to what the
  class body defines: the model covers the views that add attributes and leave those of
  \<open>WebSocketView\<close> as they are.
\<close>

definition view_attr :: "view \<Rightarrow> string \<Rightarrow> handler option" where
  "view_attr v name =
     (case map_of class_attrs name of
        Some h \<Rightarrow> Some h
      | None \<Rightarrow> map_option H_extra (map_of (extra_attrs v) name))"

text \<open>
  \<open>getattr(self, name, self.default)\<close>: a name that is not a \<open>str\<close> raises
  \<open>TypeError\<close>; a name the object does not have gives the default.
\<close>

definition getattr_view :: "view \<Rightarrow> json \<Rightarrow> error + handler" where
  "getattr_view v name =
     (case name of
        JStr s \<Rightarrow> Inr (case view_attr v s of Some h \<Rightarrow> h | None \<Rightarrow> H_default)
      | _ \<Rightarrow> Inl TypeError)"

text \<open>
  \<open>self.route_selection_key in self.body\<close>: a key of a dict, an element of a list, a
  substring of a \<open>str\<close>; \<open>TypeError\<close> on a number, a \<open>bool\<close> or \<open>None\<close>.
\<close>

definition key_in_body :: "view \<Rightarrow> error + bool" where
  "key_in_body v =
     (case body v of
        JObj kvs \<Rightarrow> Inr (route_selection_key v \<in> fst ` set kvs)
      | JArr xs \<Rightarrow> Inr (JStr (route_selection_key v) \<in> set xs)
      | JStr s \<Rightarrow> Inr (str_in (route_selection_key v) s)
      | _ \<Rightarrow> Inl TypeError)"

text \<open>
  \<open>self.body[self.route_selection_key]\<close>: the value under the key of a dict;
  \<open>TypeError\<close> on every other value, which a \<open>str\<close> does not index.
\<close>

definition body_item :: "view \<Rightarrow> error + json" where
  "body_item v =
     (case body v of
        JObj kvs \<Rightarrow>
          (case map_of kvs (route_selection_key v) of
             None \<Rightarrow> Inl (KeyError (route_selection_key v))
           | Some x \<Rightarrow> Inr x)
      | _ \<Rightarrow> Inl TypeError)"

text \<open>The branches of \<open>dispatch\<close> that assign \<open>handler\<close>.\<close>

definition select_handler :: "view \<Rightarrow> request \<Rightarrow> error + handler" where
  "select_handler v r =
     (if expected_headers r then
        if lower (req_method r) \<in> set (http_method_names v) then
          if ''connect'' = slug v then Inr H_connect
          else if ''disconnect'' = slug v then
            (case expected_useragent v r of
               Inl e \<Rightarrow> Inl e
             | Inr ok \<Rightarrow> if \<not> ok then Inr H_invalid_useragent else Inr H_disconnect)
          else
            (case key_in_body v of
               Inl e \<Rightarrow> Inl e
             | Inr present \<Rightarrow>
                 if present then
                   (case body_item v of
                      Inl e \<Rightarrow> Inl e
                    | Inr name \<Rightarrow>
                        (case getattr_view v name of
                           Inl e \<Rightarrow> Inl e
                         | Inr h \<Rightarrow>
                             (case expected_useragent v r of
                                Inl e \<Rightarrow> Inl e
                              | Inr ok \<Rightarrow>
                                  if \<not> ok then Inr H_invalid_useragent else Inr h)))
                 else Inr H_route_selection_key_missing)
        else Inr H_http_method_not_allowed
      else Inr H_missing_headers)"

text \<open>
  The call \<open>handler(request, *args, **kwargs)\<close>. The first argument is what the call
  yields when the handler is \<open>dispatch\<close> itself. Django's \<open>http_method_not_allowed\<close>
  answers with its 405 response.
\<close>

definition call_handler :: "outcome \<Rightarrow> settings \<Rightarrow> view \<Rightarrow> request \<Rightarrow> handler \<Rightarrow> outcome" where
  "call_handler again st v r h =
     (case h of
        H_connect \<Rightarrow> connect st v r
      | H_disconnect \<Rightarrow> disconnect v r
      | H_default \<Rightarrow> default v r
      | H_missing_headers \<Rightarrow> missing_headers v r
      | H_invalid_useragent \<Rightarrow> invalid_useragent v r
      | H_route_selection_key_missing \<Rightarrow> route_selection_key_missing v r
      | H_http_method_not_allowed \<Rightarrow> Inr (Response HttpResponseNotAllowed)
      | H_dispatch \<Rightarrow> again
      | H_setup \<Rightarrow> Inr (Value PNone)
      | H_expected_headers \<Rightarrow> Inr (Value (PBool (expected_headers r)))
      | H_expected_apigateway_id \<Rightarrow>
          (case expected_apigateway_id v r of Inl e \<Rightarrow> Inl e | Inr x \<Rightarrow> Inr (Value x))
      | H_expected_useragent \<Rightarrow>
          (case expected_useragent v r of Inl e \<Rightarrow> Inl e | Inr b \<Rightarrow> Inr (Value (PBool b)))
      | H_expected_connection_headers \<Rightarrow> Inr (Value (PBool (expected_connection_headers r)))
      | H_not_callable \<Rightarrow> Inl TypeError
      | H_wrong_arguments \<Rightarrow> Inl TypeError
      | H_extra f \<Rightarrow> f r)"

text \<open>
  \<open>dispatch\<close>. The first argument bounds the depth of nested calls, as the interpreter's
  recursion limit does: a route key that names \<open>dispatch\<close> makes the method call itself
  with the same request.
\<close>

primrec dispatch :: "nat \<Rightarrow> settings \<Rightarrow> view \<Rightarrow> request \<Rightarrow> outcome" where
  "dispatch 0 st v r = Inl RecursionError"
| "dispatch (Suc n) st v r =
     (case select_handler v r of
        Inl e \<Rightarrow> Inl e
      | Inr h \<Rightarrow> call_handler (dispatch n st v r) st v r h)"

section \<open>Example requests and views\<close>

text \<open>
  A request as the gateway sends it: every required header, each value an object of its
  own. The arguments are the values of \<open>User-Agent\<close> and \<open>X-Amzn-Apigateway-Api-Id\<close>.
\<close>

definition example_headers :: "string \<Rightarrow> string \<Rightarrow> (string \<times> pystr) list" where
  "example_headers ua api =
     [(''Host'', \<lparr>oid = 1, chars = ''a.com''\<rparr>),
      (''X-Real-Ip'', \<lparr>oid = 2, chars = ''10.0.0.1''\<rparr>),
      (''X-Forwarded-For'', \<lparr>oid = 3, chars = ''10.0.0.1''\<rparr>),
      (''X-Forwarded-Proto'', \<lparr>oid = 4, chars = ''https''\<rparr>),
      (''Connection'', \<lparr>oid = 5, chars = ''upgrade''\<rparr>),
      (''Content-Length'', \<lparr>oid = 6, chars = ''0''\<rparr>),
      (''X-Forwarded-Port'', \<lparr>oid = 7, chars = ''443''\<rparr>),
      (''X-Amzn-Trace-Id'', \<lparr>oid = 8, chars = ''Root=1''\<rparr>),
      (''Connectionid'', \<lparr>oid = 9, chars = ''c1''\<rparr>),
      (''User-Agent'', \<lparr>oid = 10, chars = ua\<rparr>),
      (''X-Amzn-Apigateway-Api-Id'', \<lparr>oid = 11, chars = api\<rparr>)]"

text \<open>The same request with the header of the given name left out.\<close>

definition example_headers_without :: "string \<Rightarrow> (string \<times> pystr) list" where
  "example_headers_without k =
     filter (\<lambda>kv. fst kv \<noteq> k) (example_headers ''AmazonAPIGateway_G1'' ''G1'')"

text \<open>The headers of the connection handshake; the argument is the value of \<open>Origin\<close>.\<close>

definition example_connection_headers :: "string \<Rightarrow> (string \<times> pystr) list" where
  "example_connection_headers orig =
     [(''Cookie'', \<lparr>oid = 12, chars = ''sessionid=s1''\<rparr>),
      (''Origin'', \<lparr>oid = 13, chars = orig\<rparr>),
      (''Sec-Websocket-Extensions'', \<lparr>oid = 14, chars = ''permessage-deflate''\<rparr>),
      (''Sec-Websocket-Key'', \<lparr>oid = 15, chars = ''k1''\<rparr>),
      (''Sec-Websocket-Version'', \<lparr>oid = 16, chars = ''13''\<rparr>)]"

text \<open>
  \<open>WebSocketView\<close> with the class attributes of the source, the verbs of Django's
  \<open>View\<close> and no further attribute; the arguments are the configured gateway id, the
  slug and the items of the decoded body, a JSON object.
\<close>

definition example_view :: "pystr option \<Rightarrow> string \<Rightarrow> (string \<times> json) list \<Rightarrow> view" where
  "example_view gid sl b =
     \<lparr>route_selection_key = ''action'',
      aws_api_gateway_id = gid,
      expected_useragent_prefix = ''AmazonAPIGateway_'',
      http_method_names =
        [''get'', ''post'', ''put'', ''patch'', ''delete'', ''head'', ''options'', ''trace''],
      body = JObj b,
      slug = sl,
      extra_attrs = []\<rparr>"

lemmas example_defs =
  example_headers_def example_headers_without_def example_connection_headers_def
  example_view_def

lemmas primitive_defs =
  header_def has_header_def lower_def lower_char_def truthy_def str_of_def
  fresh_oid_def live_oids_def format_str_def is_not_def
  required_headers_def required_connection_headers_def

lemmas method_defs =
  return_bad_request_def route_selection_key_missing_def missing_headers_def
  invalid_useragent_def expected_headers_def expected_apigateway_id_def
  expected_useragent_def check_allowed_hosts_def check_host_is_in_origin_def
  expected_connection_headers_def connect_def disconnect_def default_def

lemmas dispatch_defs =
  class_attrs_def view_attr_def getattr_view_def key_in_body_def body_item_def
  select_handler_def call_handler_def

section \<open>Facts about the primitives\<close>

lemma str_in_sublist: "str_in xs ys = sublist xs ys"
  by (induction ys) (simp_all add: sublist_Cons_right)

lemma fold_max_ge: "(a::nat) \<le> fold max xs a"
proof (induction xs arbitrary: a)
  case Nil
  show ?case by simp
next
  case (Cons x xs)
  have "a \<le> max x a" by simp
  also have "max x a \<le> fold max xs (max x a)" by (rule Cons.IH)
  finally show ?case by simp
qed

lemma fold_max_mem: "(x::nat) \<in> set xs \<Longrightarrow> x \<le> fold max xs a"
proof (induction xs arbitrary: a)
  case Nil
  then show ?case by simp
next
  case (Cons y ys)
  show ?case
  proof (cases "x = y")
    case True
    have "x \<le> max y a" using True by simp
    also have "max y a \<le> fold max ys (max y a)" by (rule fold_max_ge)
    finally show ?thesis by simp
  next
    case False
    with Cons.prems have "x \<in> set ys" by simp
    then have "x \<le> fold max ys (max y a)" by (rule Cons.IH)
    then show ?thesis by simp
  qed
qed

lemma fresh_oid_new: "x \<in> set live \<Longrightarrow> x \<noteq> fresh_oid live"
  using fold_max_mem [of x live 0] by (simp add: fresh_oid_def)

lemma header_value_live:
  assumes "header r k = Inr s"
  shows "oid s \<in> set (live_oids v r)"
proof -
  from assms have "map_of (headers r) k = Some s"
    by (simp add: header_def split: option.splits)
  then have "(k, s) \<in> set (headers r)" by (rule map_of_SomeD)
  then have "oid s \<in> (\<lambda>kv. oid (snd kv)) ` set (headers r)" by force
  then show ?thesis by (simp add: live_oids_def)
qed

lemma is_not_format_str:
  assumes "header r k = Inr s"
  shows "is_not s (format_str v r t)"
  using fresh_oid_new [OF header_value_live [OF assms, of v]]
  by (simp add: is_not_def format_str_def)

lemma has_header_iff: "has_header r k \<longleftrightarrow> (\<exists>s. header r k = Inr s)"
  by (auto simp add: has_header_def header_def split: option.splits)

lemma expected_headers_header:
  assumes "expected_headers r" and "k \<in> set required_headers"
  shows "\<exists>s. header r k = Inr s"
proof -
  from assms have "has_header r k"
    by (simp add: expected_headers_def list_all_iff)
  then show ?thesis by (simp add: has_header_iff)
qed

lemma expected_headers_useragent:
  "expected_headers r \<Longrightarrow> \<exists>ua. header r ''User-Agent'' = Inr ua"
  by (rule expected_headers_header) (simp_all add: required_headers_def)

lemma expected_headers_host:
  "expected_headers r \<Longrightarrow> \<exists>h. header r ''Host'' = Inr h"
  by (rule expected_headers_header) (simp_all add: required_headers_def)

lemma expected_connection_headers_origin:
  assumes "expected_connection_headers r"
  shows "\<exists>orig. header r ''Origin'' = Inr orig"
proof -
  from assms have "has_header r ''Origin''"
    by (simp add: expected_connection_headers_def required_connection_headers_def)
  then show ?thesis by (simp add: has_header_iff)
qed

lemma expected_useragent_strict:
  assumes "truthy (aws_api_gateway_id v)" and "header r ''User-Agent'' = Inr ua"
  shows "expected_useragent v r = Inr True"
  using assms is_not_format_str [OF assms(2)]
  by (simp add: expected_useragent_def)

lemma expected_useragent_total:
  assumes "expected_headers r"
  shows "\<exists>b. expected_useragent v r = Inr b"
proof -
  from expected_headers_useragent [OF assms] obtain ua
    where "header r ''User-Agent'' = Inr ua" ..
  then show ?thesis by (simp add: expected_useragent_def)
qed

lemma invalid_useragent_bad_request:
  assumes "expected_headers r"
  shows "\<exists>m. invalid_useragent v r = Inr (Response (HttpResponseBadRequest m))"
proof -
  from expected_headers_useragent [OF assms] obtain ua
    where "header r ''User-Agent'' = Inr ua" ..
  then show ?thesis by (simp add: invalid_useragent_def return_bad_request_def)
qed

section \<open>The header gate\<close>

text \<open>
  C3. An event that lacks one of the names of the required header list fails
  \<open>_expected_headers\<close>; \<open>dispatch\<close> then binds \<open>missing_headers\<close> and returns what it
  returns, a 400 response. No other handler is bound, and the result of
  \<open>missing_headers\<close> depends on no handler of the view.
\<close>

theorem missing_required_header_rejected:
  assumes "k \<in> set required_headers" and "\<not> has_header r k"
  shows "\<not> expected_headers r
       \<and> select_handler v r = Inr H_missing_headers
       \<and> dispatch (Suc n) st v r = missing_headers v r
       \<and> (\<exists>m. dispatch (Suc n) st v r = Inr (Response (HttpResponseBadRequest m)))"
proof -
  from assms have no: "\<not> expected_headers r"
    by (auto simp add: expected_headers_def list_all_iff)
  then have sel: "select_handler v r = Inr H_missing_headers"
    by (simp add: select_handler_def)
  then have run: "dispatch (Suc n) st v r = missing_headers v r"
    by (simp add: call_handler_def)
  have "\<exists>m. missing_headers v r = Inr (Response (HttpResponseBadRequest m))"
    by (simp add: missing_headers_def return_bad_request_def)
  with no sel run show ?thesis by simp
qed

theorem missing_required_header_rejected_witness:
  "''Connectionid'' \<in> set required_headers
   \<and> \<not> has_header \<lparr>headers = example_headers_without ''Connectionid'',
                       req_method = ''POST'', req_user = Some AnonymousUser\<rparr> ''Connectionid''
   \<and> select_handler (example_view None ''connect'' [])
        \<lparr>headers = example_headers_without ''Connectionid'',
         req_method = ''POST'', req_user = Some AnonymousUser\<rparr> = Inr H_missing_headers"
  using missing_required_header_rejected
    [of "''Connectionid''"
        "\<lparr>headers = example_headers_without ''Connectionid'',
          req_method = ''POST'', req_user = Some AnonymousUser\<rparr>"
        "example_view None ''connect'' []" 0 "\<lparr>ALLOWED_HOSTS = []\<rparr>"]
  by (simp add: required_headers_def has_header_def example_defs)

section \<open>Host within origin\<close>

text \<open>
  C8. On an event that carries \<open>Host\<close> and \<open>Origin\<close>,
  \<open>_check_host_is_in_origin\<close> returns \<open>True\<close> exactly when the value of \<open>Host\<close>
  occurs in the value of \<open>Origin\<close> as a substring, and \<open>False\<close> otherwise.
\<close>

theorem host_within_origin_iff_substring:
  assumes "header r ''Host'' = Inr h" and "header r ''Origin'' = Inr orig"
  shows "check_host_is_in_origin r = Inr (\<exists>ps ss. chars orig = ps @ chars h @ ss)"
  using assms by (simp add: check_host_is_in_origin_def str_in_sublist sublist_def)

theorem host_within_origin_iff_substring_witness:
  "header \<lparr>headers = example_headers ''AmazonAPIGateway_G1'' ''G1''
                       @ example_connection_headers ''https://a.com'', req_method = ''GET'', req_user = Some AnonymousUser\<rparr> ''Host''
     = Inr \<lparr>oid = 1, chars = ''a.com''\<rparr>
   \<and> header \<lparr>headers = example_headers ''AmazonAPIGateway_G1'' ''G1''
                       @ example_connection_headers ''https://a.com'', req_method = ''GET'', req_user = Some AnonymousUser\<rparr> ''Origin''
     = Inr \<lparr>oid = 13, chars = ''https://a.com''\<rparr>
   \<and> check_host_is_in_origin
        \<lparr>headers = example_headers ''AmazonAPIGateway_G1'' ''G1''
                     @ example_connection_headers ''https://a.com'', req_method = ''GET'', req_user = Some AnonymousUser\<rparr> = Inr True
   \<and> (\<exists>ps ss. ''https://a.com'' = ps @ ''a.com'' @ ss)"
  using host_within_origin_iff_substring
    [of "\<lparr>headers = example_headers ''AmazonAPIGateway_G1'' ''G1''
                     @ example_connection_headers ''https://a.com'', req_method = ''GET'', req_user = Some AnonymousUser\<rparr>"
        "\<lparr>oid = 1, chars = ''a.com''\<rparr>" "\<lparr>oid = 13, chars = ''https://a.com''\<rparr>"]
  by (simp add: header_def check_host_is_in_origin_def example_defs)

text \<open>The pair of the specification that is not a substring: \<open>a.com\<close> in \<open>https://b.com\<close>.\<close>

lemma host_not_within_other_origin:
  "check_host_is_in_origin
     \<lparr>headers = example_headers ''AmazonAPIGateway_G1'' ''G1''
                  @ example_connection_headers ''https://b.com'', req_method = ''GET'', req_user = Some AnonymousUser\<rparr> = Inr False"
  by (simp add: header_def check_host_is_in_origin_def example_defs)

section \<open>The connect handler\<close>

lemma dispatch_connect_path:
  assumes "expected_headers r" and "lower (req_method r) \<in> set (http_method_names v)"
    and "slug v = ''connect''"
  shows "dispatch (Suc n) st v r = connect st v r"
  using assms by (simp add: select_handler_def call_handler_def)

lemma connect_unfolded:
  assumes "header r ''Host'' = Inr h"
  shows "connect st v r =
          (if \<not> expected_connection_headers r then
             return_bad_request
               [Text ''Missing headers; Expected '', Repr_list required_connection_headers,
                Text '', Received '', Repr_headers (headers r)]
           else if check_allowed_hosts st r \<noteq> Inr True then
             return_bad_request
               [Text (''Host '' @ chars h @ '' not in AllowedHosts ''),
                Repr_list (ALLOWED_HOSTS st)]
           else if check_host_is_in_origin r \<noteq> Inr True then
             return_bad_request [Text (''Host '' @ chars h @ '' not in Origin '' @ chars h)]
           else if req_user r = None then Inl AttributeError
           else Inr (Response (JsonResponse (JObj []))))"
proof (cases "expected_connection_headers r")
  case False
  then show ?thesis by (simp add: connect_def)
next
  case True
  from expected_connection_headers_origin [OF True] obtain orig
    where "header r ''Origin'' = Inr orig" ..
  with True assms show ?thesis
    by (simp add: connect_def check_allowed_hosts_def check_host_is_in_origin_def
          split: option.splits)
qed

lemma connect_all_pass:
  assumes "expected_connection_headers r" and "check_allowed_hosts st r = Inr True"
    and "check_host_is_in_origin r = Inr True"
  shows "connect st v r =
          (if req_user r = None then Inl AttributeError
           else Inr (Response (JsonResponse (JObj []))))"
  using assms by (simp add: connect_def split: option.splits)

text \<open>
  C5, as amended. On the connect path (the header gate and the verb check passed, the
  slug is \<open>connect\<close>) \<open>dispatch\<close> returns what \<open>connect\<close> returns, and \<open>connect\<close>
  runs its three checks in the order connection headers, allowed host, host within
  origin: the first that fails decides the 400 response, whose message is that check's
  own. When the three checks pass, \<open>connect\<close> returns the success response with the
  empty JSON object on a request that carries a user, and raises \<open>AttributeError\<close> on a
  request that carries none.
\<close>

theorem connect_three_checks_in_order:
  "(expected_headers r \<and> lower (req_method r) \<in> set (http_method_names v)
      \<and> slug v = ''connect'' \<longrightarrow>
      (\<exists>h. header r ''Host'' = Inr h
         \<and> dispatch (Suc n) st v r = connect st v r
         \<and> connect st v r =
             (if \<not> expected_connection_headers r then
                return_bad_request
                  [Text ''Missing headers; Expected '', Repr_list required_connection_headers,
                   Text '', Received '', Repr_headers (headers r)]
              else if check_allowed_hosts st r \<noteq> Inr True then
                return_bad_request
                  [Text (''Host '' @ chars h @ '' not in AllowedHosts ''),
                   Repr_list (ALLOWED_HOSTS st)]
              else if check_host_is_in_origin r \<noteq> Inr True then
                return_bad_request [Text (''Host '' @ chars h @ '' not in Origin '' @ chars h)]
              else if req_user r = None then Inl AttributeError
              else Inr (Response (JsonResponse (JObj []))))))
   \<and> (expected_connection_headers r \<and> check_allowed_hosts st r = Inr True
        \<and> check_host_is_in_origin r = Inr True \<longrightarrow>
        connect st v r =
          (if req_user r = None then Inl AttributeError
           else Inr (Response (JsonResponse (JObj [])))))"
proof (intro conjI impI)
  assume gate: "expected_headers r \<and> lower (req_method r) \<in> set (http_method_names v)
      \<and> slug v = ''connect''"
  from gate expected_headers_host obtain h where h: "header r ''Host'' = Inr h" by blast
  from gate have "dispatch (Suc n) st v r = connect st v r"
    using dispatch_connect_path by blast
  with h connect_unfolded [OF h, of st v]
  show "\<exists>h. header r ''Host'' = Inr h
         \<and> dispatch (Suc n) st v r = connect st v r
         \<and> connect st v r =
             (if \<not> expected_connection_headers r then
                return_bad_request
                  [Text ''Missing headers; Expected '', Repr_list required_connection_headers,
                   Text '', Received '', Repr_headers (headers r)]
              else if check_allowed_hosts st r \<noteq> Inr True then
                return_bad_request
                  [Text (''Host '' @ chars h @ '' not in AllowedHosts ''),
                   Repr_list (ALLOWED_HOSTS st)]
              else if check_host_is_in_origin r \<noteq> Inr True then
                return_bad_request [Text (''Host '' @ chars h @ '' not in Origin '' @ chars h)]
              else if req_user r = None then Inl AttributeError
              else Inr (Response (JsonResponse (JObj []))))"
    by blast
next
  assume "expected_connection_headers r \<and> check_allowed_hosts st r = Inr True
        \<and> check_host_is_in_origin r = Inr True"
  then show "connect st v r =
      (if req_user r = None then Inl AttributeError
       else Inr (Response (JsonResponse (JObj []))))"
    using connect_all_pass by blast
qed

theorem connect_three_checks_in_order_witness:
  "expected_headers
     \<lparr>headers = example_headers ''AmazonAPIGateway_G1'' ''G1''
                    @ example_connection_headers ''https://a.com'', req_method = ''GET'',
         req_user = Some AnonymousUser\<rparr>
   \<and> lower ''GET'' \<in> set (http_method_names (example_view None ''connect'' []))
   \<and> expected_connection_headers
       \<lparr>headers = example_headers ''AmazonAPIGateway_G1'' ''G1''
                    @ example_connection_headers ''https://a.com'', req_method = ''GET'',
         req_user = Some AnonymousUser\<rparr>
   \<and> check_allowed_hosts \<lparr>ALLOWED_HOSTS = []\<rparr>
       \<lparr>headers = example_headers ''AmazonAPIGateway_G1'' ''G1''
                    @ example_connection_headers ''https://a.com'', req_method = ''GET'',
         req_user = Some AnonymousUser\<rparr> = Inr True
   \<and> check_host_is_in_origin
       \<lparr>headers = example_headers ''AmazonAPIGateway_G1'' ''G1''
                    @ example_connection_headers ''https://a.com'', req_method = ''GET'',
         req_user = Some AnonymousUser\<rparr> = Inr True
   \<and> dispatch (Suc 0) \<lparr>ALLOWED_HOSTS = []\<rparr> (example_view None ''connect'' [])
       \<lparr>headers = example_headers ''AmazonAPIGateway_G1'' ''G1''
                    @ example_connection_headers ''https://a.com'', req_method = ''GET'',
         req_user = Some AnonymousUser\<rparr>
     = Inr (Response (JsonResponse (JObj [])))"
  using connect_three_checks_in_order
    [of "\<lparr>headers = example_headers ''AmazonAPIGateway_G1'' ''G1''
                    @ example_connection_headers ''https://a.com'', req_method = ''GET'',
         req_user = Some AnonymousUser\<rparr>"
        "example_view None ''connect'' []" 0 "\<lparr>ALLOWED_HOSTS = []\<rparr>"]
  by (simp add: example_defs primitive_defs expected_headers_def
        expected_connection_headers_def check_allowed_hosts_def check_host_is_in_origin_def)

text \<open>
  C5 as stated, success on every event on which the three checks pass, fails on a
  request that carries no user: the three checks pass and \<open>connect\<close> raises.
\<close>

theorem connect_without_user_counterexample:
  "expected_connection_headers
     \<lparr>headers = example_headers ''AmazonAPIGateway_G1'' ''G1''
                    @ example_connection_headers ''https://a.com'', req_method = ''GET'',
         req_user = None\<rparr>
   \<and> check_allowed_hosts \<lparr>ALLOWED_HOSTS = []\<rparr>
       \<lparr>headers = example_headers ''AmazonAPIGateway_G1'' ''G1''
                    @ example_connection_headers ''https://a.com'', req_method = ''GET'',
         req_user = None\<rparr> = Inr True
   \<and> check_host_is_in_origin
       \<lparr>headers = example_headers ''AmazonAPIGateway_G1'' ''G1''
                    @ example_connection_headers ''https://a.com'', req_method = ''GET'',
         req_user = None\<rparr> = Inr True
   \<and> connect \<lparr>ALLOWED_HOSTS = []\<rparr> (example_view None ''connect'' [])
       \<lparr>headers = example_headers ''AmazonAPIGateway_G1'' ''G1''
                    @ example_connection_headers ''https://a.com'', req_method = ''GET'',
         req_user = None\<rparr> = Inl AttributeError
   \<and> dispatch (Suc 0) \<lparr>ALLOWED_HOSTS = []\<rparr> (example_view None ''connect'' [])
       \<lparr>headers = example_headers ''AmazonAPIGateway_G1'' ''G1''
                    @ example_connection_headers ''https://a.com'', req_method = ''GET'',
         req_user = None\<rparr> = Inl AttributeError"
  by (simp add: example_defs primitive_defs method_defs dispatch_defs)

section \<open>Application routes: the default handler and the missing route key\<close>

lemma key_in_body_object:
  assumes "body v = JObj kvs"
  shows "key_in_body v = Inr (map_of kvs (route_selection_key v) \<noteq> None)"
  using assms by (simp add: key_in_body_def map_of_eq_None_iff)

lemma body_item_object:
  assumes "body v = JObj kvs" and "map_of kvs (route_selection_key v) = Some name"
  shows "body_item v = Inr name"
  using assms by (simp add: body_item_def)

lemma select_handler_route:
  assumes "expected_headers r" and "lower (req_method r) \<in> set (http_method_names v)"
    and "slug v \<noteq> ''connect''" and "slug v \<noteq> ''disconnect''"
    and "body v = JObj kvs"
    and "map_of kvs (route_selection_key v) = Some name"
    and "getattr_view v name = Inr h"
    and "expected_useragent v r = Inr ok"
  shows "select_handler v r = Inr (if ok then h else H_invalid_useragent)"
proof -
  from assms(5,6) have "key_in_body v = Inr True"
    by (simp add: key_in_body_object)
  moreover from assms(5,6) have "body_item v = Inr name"
    by (rule body_item_object)
  ultimately show ?thesis using assms(1-4,7,8)
    by (auto simp add: select_handler_def)
qed

lemma select_handler_key_missing:
  assumes "expected_headers r" and "lower (req_method r) \<in> set (http_method_names v)"
    and "slug v \<noteq> ''connect''" and "slug v \<noteq> ''disconnect''"
    and "key_in_body v = Inr False"
  shows "select_handler v r = Inr H_route_selection_key_missing"
  using assms by (auto simp add: select_handler_def)

text \<open>
  C6, as amended. The default handler raises \<open>NotImplementedError\<close> whenever it is
  called. On every event for which handler resolution on an application route selects
  it, \<open>dispatch\<close> raises that error when the identity check passes (the default handler
  is called) and returns the 400 response of \<open>invalid_useragent\<close> when the check fails
  (the default handler is not called); it never returns a success response.
\<close>

theorem default_handler_raises_not_implemented:
  assumes "expected_headers r" and "lower (req_method r) \<in> set (http_method_names v)"
    and "slug v \<noteq> ''connect''" and "slug v \<noteq> ''disconnect''"
    and "body v = JObj kvs"
    and "map_of kvs (route_selection_key v) = Some name"
    and "getattr_view v name = Inr H_default"
  shows "call_handler again st v r H_default = Inl NotImplementedError
       \<and> dispatch (Suc n) st v r =
           (if expected_useragent v r = Inr True then Inl NotImplementedError
            else invalid_useragent v r)
       \<and> (\<forall>j. dispatch (Suc n) st v r \<noteq> Inr (Response (JsonResponse j)))"
proof -
  have raises: "call_handler again st v r H_default = Inl NotImplementedError"
    by (simp add: call_handler_def default_def)
  from expected_useragent_total [OF assms(1)] obtain ok
    where ok: "expected_useragent v r = Inr ok" ..
  from select_handler_route [OF assms ok]
  have sel: "select_handler v r = Inr (if ok then H_default else H_invalid_useragent)" .
  from invalid_useragent_bad_request [OF assms(1)] obtain m
    where m: "invalid_useragent v r = Inr (Response (HttpResponseBadRequest m))" ..
  from sel ok have run: "dispatch (Suc n) st v r =
      (if expected_useragent v r = Inr True then Inl NotImplementedError
       else invalid_useragent v r)"
    by (simp add: call_handler_def default_def)
  with m have "\<forall>j. dispatch (Suc n) st v r \<noteq> Inr (Response (JsonResponse j))"
    by simp
  with raises run show ?thesis by simp
qed

theorem default_handler_raises_not_implemented_witness:
  "expected_headers \<lparr>headers = example_headers ''AmazonAPIGateway_G1'' ''G1'', req_method = ''POST'',
          req_user = Some AnonymousUser\<rparr>
   \<and> lower ''POST'' \<in> set (http_method_names (example_view None ''message'' [(''action'', JStr ''ping'')]))
   \<and> body (example_view None ''message'' [(''action'', JStr ''ping'')])
       = JObj [(''action'', JStr ''ping'')]
   \<and> map_of [(''action'', JStr ''ping'')]
        (route_selection_key (example_view None ''message'' [(''action'', JStr ''ping'')]))
       = Some (JStr ''ping'')
   \<and> getattr_view (example_view None ''message'' [(''action'', JStr ''ping'')]) (JStr ''ping'')
       = Inr H_default
   \<and> dispatch (Suc 0) \<lparr>ALLOWED_HOSTS = []\<rparr>
        (example_view None ''message'' [(''action'', JStr ''ping'')])
        \<lparr>headers = example_headers ''AmazonAPIGateway_G1'' ''G1'', req_method = ''POST'',
          req_user = Some AnonymousUser\<rparr>
       = Inl NotImplementedError"
  using default_handler_raises_not_implemented
    [of "\<lparr>headers = example_headers ''AmazonAPIGateway_G1'' ''G1'', req_method = ''POST'',
          req_user = Some AnonymousUser\<rparr>"
        "example_view None ''message'' [(''action'', JStr ''ping'')]"
        "[(''action'', JStr ''ping'')]" "JStr ''ping''"
        "Inl RecursionError" "\<lparr>ALLOWED_HOSTS = []\<rparr>" 0]
  by (simp add: example_defs primitive_defs expected_headers_def expected_useragent_def
        dispatch_defs)

text \<open>
  C6 as stated, a \<open>NotImplementedError\<close> for every event whose route key resolves to the
  default handler, fails when the identity check fails: with no gateway id configured
  and a \<open>User-Agent\<close> that lacks the prefix, the route key \<open>ping\<close> resolves to the
  default handler and \<open>dispatch\<close> returns the 400 response of \<open>invalid_useragent\<close>.
\<close>

theorem default_handler_not_reached_counterexample:
  "getattr_view (example_view None ''message'' [(''action'', JStr ''ping'')]) (JStr ''ping'')
     = Inr H_default
   \<and> expected_useragent (example_view None ''message'' [(''action'', JStr ''ping'')])
        \<lparr>headers = example_headers ''curl/8.0'' ''G1'', req_method = ''POST'',
          req_user = Some AnonymousUser\<rparr> = Inr False
   \<and> dispatch (Suc 0) \<lparr>ALLOWED_HOSTS = []\<rparr>
        (example_view None ''message'' [(''action'', JStr ''ping'')])
        \<lparr>headers = example_headers ''curl/8.0'' ''G1'', req_method = ''POST'',
          req_user = Some AnonymousUser\<rparr>
       = Inr (Response (HttpResponseBadRequest
           [Text ''Unexpected Useragent; Expected AmazonAPIGateway_None, Received curl/8.0'']))"
  by (simp add: example_defs primitive_defs method_defs dispatch_defs)

text \<open>
  C7, as amended. An event that passes the header gate and the verb check, whose slug is
  neither \<open>connect\<close> nor \<open>disconnect\<close> and whose decoded body is a value on which the
  membership test of the route selection key answers \<open>False\<close> (a JSON object without
  that key; also a list without that element and a string without that substring), makes
  \<open>dispatch\<close> bind \<open>route_selection_key_missing\<close> and return its 400 response, whose
  message names the key.
\<close>

theorem route_key_missing_rejected:
  assumes "expected_headers r" and "lower (req_method r) \<in> set (http_method_names v)"
    and "slug v \<noteq> ''connect''" and "slug v \<noteq> ''disconnect''"
    and "key_in_body v = Inr False"
  shows "select_handler v r = Inr H_route_selection_key_missing
       \<and> dispatch (Suc n) st v r =
           Inr (Response (HttpResponseBadRequest
             [Text (''route_select_key '' @ route_selection_key v
                    @ '' missing from request body.'')]))"
  using select_handler_key_missing [OF assms]
  by (simp add: call_handler_def route_selection_key_missing_def return_bad_request_def)

theorem route_key_missing_rejected_witness:
  "expected_headers \<lparr>headers = example_headers ''AmazonAPIGateway_G1'' ''G1'', req_method = ''POST'',
          req_user = Some AnonymousUser\<rparr>
   \<and> lower ''POST'' \<in> set (http_method_names (example_view None ''message'' []))
   \<and> body (example_view None ''message'' []) = JObj []
   \<and> key_in_body (example_view None ''message'' []) = Inr False
   \<and> dispatch (Suc 0) \<lparr>ALLOWED_HOSTS = []\<rparr> (example_view None ''message'' [])
        \<lparr>headers = example_headers ''AmazonAPIGateway_G1'' ''G1'', req_method = ''POST'',
          req_user = Some AnonymousUser\<rparr>
       = Inr (Response (HttpResponseBadRequest
           [Text ''route_select_key action missing from request body.'']))"
  using route_key_missing_rejected
    [of "\<lparr>headers = example_headers ''AmazonAPIGateway_G1'' ''G1'', req_method = ''POST'',
          req_user = Some AnonymousUser\<rparr>"
        "example_view None ''message'' []" 0 "\<lparr>ALLOWED_HOSTS = []\<rparr>"]
  by (simp add: example_defs primitive_defs method_defs dispatch_defs)

text \<open>
  The objects among those bodies: the membership test answers \<open>False\<close> on a JSON
  object exactly when the object has no item under the route selection key.
\<close>

lemma key_in_body_object_missing:
  "body v = JObj kvs \<Longrightarrow>
     key_in_body v = Inr False \<longleftrightarrow> route_selection_key v \<notin> fst ` set kvs"
  by (simp add: key_in_body_def)

text \<open>
  C7 as stated, for every event with such a slug and body, fails: without the required
  headers the answer is the 400 response of \<open>missing_headers\<close>; with a verb the view
  does not support it is the 405 response; and on a body that decodes to a number, which
  does not contain the key either, the membership test raises \<open>TypeError\<close>.
\<close>

theorem route_key_missing_needs_gates_counterexample:
  "slug (example_view None ''message'' []) \<noteq> ''connect''
   \<and> slug (example_view None ''message'' []) \<noteq> ''disconnect''
   \<and> key_in_body (example_view None ''message'' []) = Inr False
   \<and> dispatch (Suc 0) \<lparr>ALLOWED_HOSTS = []\<rparr> (example_view None ''message'' [])
        \<lparr>headers = [], req_method = ''POST'', req_user = Some AnonymousUser\<rparr>
       = Inr (Response (HttpResponseBadRequest
           [Text ''Some of the required headers are missing; Expected '',
            Repr_list required_headers, Text '', Received '', Repr_headers []]))
   \<and> dispatch (Suc 0) \<lparr>ALLOWED_HOSTS = []\<rparr> (example_view None ''message'' [])
        \<lparr>headers = [], req_method = ''POST'', req_user = Some AnonymousUser\<rparr>
       \<noteq> route_selection_key_missing (example_view None ''message'' [])
            \<lparr>headers = [], req_method = ''POST'', req_user = Some AnonymousUser\<rparr>
   \<and> dispatch (Suc 0) \<lparr>ALLOWED_HOSTS = []\<rparr> (example_view None ''message'' [])
        \<lparr>headers = example_headers ''AmazonAPIGateway_G1'' ''G1'', req_method = ''PROPFIND'',
          req_user = Some AnonymousUser\<rparr>
       = Inr (Response HttpResponseNotAllowed)
   \<and> dispatch (Suc 0) \<lparr>ALLOWED_HOSTS = []\<rparr>
        ((example_view None ''message'' [])\<lparr>body := JNum 5\<rparr>)
        \<lparr>headers = example_headers ''AmazonAPIGateway_G1'' ''G1'', req_method = ''POST'',
          req_user = Some AnonymousUser\<rparr>
       = Inl TypeError"
  by (simp add: example_defs primitive_defs method_defs dispatch_defs)

section \<open>Application routes: resolution of the route key\<close>

lemma class_attrs_resolve:
  "view_attr v ''connect'' = Some H_connect
   \<and> view_attr v ''disconnect'' = Some H_disconnect
   \<and> view_attr v ''missing_headers'' = Some H_missing_headers
   \<and> view_attr v ''invalid_useragent'' = Some H_invalid_useragent
   \<and> view_attr v ''route_selection_key_missing'' = Some H_route_selection_key_missing
   \<and> view_attr v ''dispatch'' = Some H_dispatch"
  by (simp add: view_attr_def class_attrs_def)

text \<open>
  C10, as amended. On an event that passes the header gate and the verb check, with a
  slug that is neither \<open>connect\<close> nor \<open>disconnect\<close>, whose decoded body maps the route
  selection key to a string naming any attribute of the view, the route key resolves to
  that attribute, whatever it is
  (\<open>class_attrs_resolve\<close> lists lifecycle and error handlers and \<open>dispatch\<close>
  itself), and not to the default handler; \<open>dispatch\<close> binds it unless the identity
  check fails, and calls it when the check passes.
\<close>

theorem route_key_resolves_any_attribute:
  assumes "expected_headers r" and "lower (req_method r) \<in> set (http_method_names v)"
    and "slug v \<noteq> ''connect''" and "slug v \<noteq> ''disconnect''"
    and "body v = JObj kvs"
    and "map_of kvs (route_selection_key v) = Some (JStr s)"
    and "view_attr v s = Some h"
  shows "getattr_view v (JStr s) = Inr h
       \<and> select_handler v r =
           Inr (if expected_useragent v r = Inr True then h else H_invalid_useragent)
       \<and> (expected_useragent v r = Inr True \<longrightarrow>
            dispatch (Suc n) st v r = call_handler (dispatch n st v r) st v r h)"
proof -
  from assms(7) have res: "getattr_view v (JStr s) = Inr h"
    by (simp add: getattr_view_def)
  from expected_useragent_total [OF assms(1)] obtain ok
    where ok: "expected_useragent v r = Inr ok" ..
  from select_handler_route [OF assms(1-6) res ok]
  have sel: "select_handler v r = Inr (if ok then h else H_invalid_useragent)" .
  with ok have "select_handler v r =
      Inr (if expected_useragent v r = Inr True then h else H_invalid_useragent)"
    by simp
  moreover from sel ok have "expected_useragent v r = Inr True \<longrightarrow>
      dispatch (Suc n) st v r = call_handler (dispatch n st v r) st v r h"
    by simp
  ultimately show ?thesis using res by simp
qed

theorem route_key_resolves_any_attribute_witness:
  "expected_headers
     \<lparr>headers = example_headers ''AmazonAPIGateway_G1'' ''G1''
                  @ example_connection_headers ''https://a.com'', req_method = ''POST'', req_user = Some AnonymousUser\<rparr>
   \<and> lower ''POST'' \<in> set (http_method_names (example_view None ''message'' [(''action'', JStr ''connect'')]))
   \<and> body (example_view None ''message'' [(''action'', JStr ''connect'')])
       = JObj [(''action'', JStr ''connect'')]
   \<and> map_of [(''action'', JStr ''connect'')]
        (route_selection_key (example_view None ''message'' [(''action'', JStr ''connect'')]))
       = Some (JStr ''connect'')
   \<and> view_attr (example_view None ''message'' [(''action'', JStr ''connect'')]) ''connect''
       = Some H_connect
   \<and> select_handler (example_view None ''message'' [(''action'', JStr ''connect'')])
        \<lparr>headers = example_headers ''AmazonAPIGateway_G1'' ''G1''
                     @ example_connection_headers ''https://a.com'', req_method = ''POST'', req_user = Some AnonymousUser\<rparr>
       = Inr H_connect
   \<and> dispatch (Suc 0) \<lparr>ALLOWED_HOSTS = []\<rparr>
        (example_view None ''message'' [(''action'', JStr ''connect'')])
        \<lparr>headers = example_headers ''AmazonAPIGateway_G1'' ''G1''
                     @ example_connection_headers ''https://a.com'', req_method = ''POST'', req_user = Some AnonymousUser\<rparr>
       = Inr (Response (JsonResponse (JObj [])))"
  using route_key_resolves_any_attribute
    [of "\<lparr>headers = example_headers ''AmazonAPIGateway_G1'' ''G1''
                     @ example_connection_headers ''https://a.com'', req_method = ''POST'', req_user = Some AnonymousUser\<rparr>"
        "example_view None ''message'' [(''action'', JStr ''connect'')]"
        "[(''action'', JStr ''connect'')]" "''connect''"
        H_connect 0 "\<lparr>ALLOWED_HOSTS = []\<rparr>"]
  by (simp add: example_defs primitive_defs method_defs dispatch_defs)

text \<open>
  C10 as stated, subject only to the identity check, fails: on an event whose identity
  check passes and whose route key names \<open>connect\<close>, \<open>dispatch\<close> binds
  \<open>missing_headers\<close> when a required header is absent and
  \<open>http_method_not_allowed\<close> when the verb is not supported.
\<close>

theorem route_key_resolution_needs_gates_counterexample:
  "view_attr (example_view None ''message'' [(''action'', JStr ''connect'')]) ''connect''
     = Some H_connect
   \<and> expected_useragent (example_view None ''message'' [(''action'', JStr ''connect'')])
        \<lparr>headers = example_headers_without ''Connectionid'',
         req_method = ''POST'', req_user = Some AnonymousUser\<rparr> = Inr True
   \<and> select_handler (example_view None ''message'' [(''action'', JStr ''connect'')])
        \<lparr>headers = example_headers_without ''Connectionid'',
         req_method = ''POST'', req_user = Some AnonymousUser\<rparr> = Inr H_missing_headers
   \<and> select_handler (example_view None ''message'' [(''action'', JStr ''connect'')])
        \<lparr>headers = example_headers ''AmazonAPIGateway_G1'' ''G1'', req_method = ''PROPFIND'', req_user = Some AnonymousUser\<rparr>
       = Inr H_http_method_not_allowed"
  by (simp add: example_defs primitive_defs method_defs dispatch_defs)

section \<open>The outcomes of dispatch\<close>

lemma connect_response:
  assumes "expected_headers r"
  shows "(\<exists>j. connect st v r = Inr (Response (JsonResponse j)))
       \<or> (\<exists>m. connect st v r = Inr (Response (HttpResponseBadRequest m)))
       \<or> (req_user r = None \<and> connect st v r = Inl AttributeError)"
proof -
  from expected_headers_host [OF assms] obtain h where "header r ''Host'' = Inr h" ..
  from connect_unfolded [OF this, of st v] show ?thesis
    by (simp add: return_bad_request_def)
qed

lemma getattr_view_error: "getattr_view v name = Inl e \<Longrightarrow> e = TypeError"
  by (cases name) (simp_all add: getattr_view_def)

lemma select_handler_route_error:
  assumes "expected_headers r" and "lower (req_method r) \<in> set (http_method_names v)"
    and "slug v \<noteq> ''connect''" and "slug v \<noteq> ''disconnect''"
    and "body v = JObj kvs"
    and "map_of kvs (route_selection_key v) = Some name"
    and "getattr_view v name = Inl e"
  shows "select_handler v r = Inl e"
proof -
  from assms(5,6) have "key_in_body v = Inr True"
    by (simp add: key_in_body_object)
  moreover from assms(5,6) have "body_item v = Inr name"
    by (rule body_item_object)
  ultimately show ?thesis using assms(1-4,7)
    by (auto simp add: select_handler_def)
qed

lemma select_handler_disconnect:
  assumes "expected_headers r" and "lower (req_method r) \<in> set (http_method_names v)"
    and "slug v = ''disconnect''" and "expected_useragent v r = Inr ok"
  shows "select_handler v r = Inr (if ok then H_disconnect else H_invalid_useragent)"
  using assms by (simp add: select_handler_def)

text \<open>
  On a body that is not a JSON object the application route either finds the key
  missing or raises \<open>TypeError\<close>: from the membership test (a number, a \<open>bool\<close>,
  \<open>None\<close>) or from the indexing that follows it (a list or a string that holds the key).
\<close>

lemma select_handler_not_object:
  assumes "expected_headers r" and "lower (req_method r) \<in> set (http_method_names v)"
    and "slug v \<noteq> ''connect''" and "slug v \<noteq> ''disconnect''"
    and "\<forall>kvs. body v \<noteq> JObj kvs"
  shows "select_handler v r = Inr H_route_selection_key_missing
       \<or> select_handler v r = Inl TypeError"
  using assms
  by (cases "body v") (simp_all add: select_handler_def key_in_body_def body_item_def)

text \<open>
  C4, as amended. Every call of \<open>dispatch\<close> returns a success response or a 400
  response, with these exceptions: a verb the view does not support gives the 405
  response of \<open>http_method_not_allowed\<close>; the connect route raises \<open>AttributeError\<close> on
  a request that carries no user; an application route raises \<open>TypeError\<close> on a body
  that is not a JSON object, unless the key is found missing; and on an application
  route whose body is an object holding the route key the outcome is a raised
  \<open>TypeError\<close> when the key's value is not a string, and otherwise, once the identity
  check has passed, whatever the call of the resolved attribute yields (for the default
  handler a raised \<open>NotImplementedError\<close>).
\<close>

theorem dispatch_outcomes:
  "(\<exists>j. dispatch (Suc n) st v r = Inr (Response (JsonResponse j)))
   \<or> (\<exists>m. dispatch (Suc n) st v r = Inr (Response (HttpResponseBadRequest m)))
   \<or> (lower (req_method r) \<notin> set (http_method_names v)
       \<and> dispatch (Suc n) st v r = Inr (Response HttpResponseNotAllowed))
   \<or> (slug v = ''connect'' \<and> req_user r = None
       \<and> dispatch (Suc n) st v r = Inl AttributeError)
   \<or> (expected_headers r \<and> lower (req_method r) \<in> set (http_method_names v)
       \<and> slug v \<noteq> ''connect'' \<and> slug v \<noteq> ''disconnect''
       \<and> ((\<forall>kvs. body v \<noteq> JObj kvs) \<and> dispatch (Suc n) st v r = Inl TypeError
          \<or> (\<exists>kvs name. body v = JObj kvs
                \<and> map_of kvs (route_selection_key v) = Some name
                \<and> (getattr_view v name = Inl TypeError
                     \<and> dispatch (Suc n) st v r = Inl TypeError
                   \<or> (\<exists>h. getattr_view v name = Inr h
                         \<and> expected_useragent v r = Inr True
                         \<and> dispatch (Suc n) st v r
                             = call_handler (dispatch n st v r) st v r h)))))"
proof (cases "expected_headers r")
  case False
  then have "dispatch (Suc n) st v r = missing_headers v r"
    by (simp add: select_handler_def call_handler_def)
  then show ?thesis by (simp add: missing_headers_def return_bad_request_def)
next
  case gate: True
  from expected_useragent_total [OF gate] obtain ok
    where ok: "expected_useragent v r = Inr ok" ..
  from invalid_useragent_bad_request [OF gate] obtain mu
    where mu: "invalid_useragent v r = Inr (Response (HttpResponseBadRequest mu))" ..
  have missing: "\<exists>m. dispatch (Suc n) st v r = Inr (Response (HttpResponseBadRequest m))"
    if "select_handler v r = Inr H_route_selection_key_missing"
    using that
    by (simp add: call_handler_def route_selection_key_missing_def return_bad_request_def)
  show ?thesis
  proof (cases "lower (req_method r) \<in> set (http_method_names v)")
    case False
    with gate have "dispatch (Suc n) st v r = Inr (Response HttpResponseNotAllowed)"
      by (simp add: select_handler_def call_handler_def)
    with False show ?thesis by simp
  next
    case verb: True
    consider (con) "slug v = ''connect''" | (dis) "slug v = ''disconnect''"
      | (other) "slug v \<noteq> ''connect''" "slug v \<noteq> ''disconnect''" "\<forall>kvs. body v \<noteq> JObj kvs"
      | (nokey) kvs where "slug v \<noteq> ''connect''" "slug v \<noteq> ''disconnect''"
          "body v = JObj kvs" "map_of kvs (route_selection_key v) = None"
      | (key) kvs name where "slug v \<noteq> ''connect''" "slug v \<noteq> ''disconnect''"
          "body v = JObj kvs" "map_of kvs (route_selection_key v) = Some name"
      by (cases "\<exists>kvs. body v = JObj kvs") auto
    then show ?thesis
    proof cases
      case con
      from dispatch_connect_path [OF gate verb con]
      have "dispatch (Suc n) st v r = connect st v r" .
      with connect_response [OF gate, of st v] con show ?thesis
        by (auto simp del: dispatch.simps)
    next
      case dis
      from select_handler_disconnect [OF gate verb dis ok]
      have "select_handler v r = Inr (if ok then H_disconnect else H_invalid_useragent)" .
      with mu show ?thesis
        by (cases ok) (simp_all add: call_handler_def disconnect_def)
    next
      case other
      from select_handler_not_object [OF gate verb other]
      show ?thesis
      proof
        assume "select_handler v r = Inr H_route_selection_key_missing"
        from missing [OF this] show ?thesis by blast
      next
        assume "select_handler v r = Inl TypeError"
        then have "dispatch (Suc n) st v r = Inl TypeError" by simp
        with gate verb other show ?thesis by blast
      qed
    next
      case nokey
      from nokey(3,4) have "key_in_body v = Inr False"
        by (simp add: key_in_body_object)
      from select_handler_key_missing [OF gate verb nokey(1,2) this]
      have "select_handler v r = Inr H_route_selection_key_missing" .
      from missing [OF this] show ?thesis by blast
    next
      case key
      show ?thesis
      proof (cases "getattr_view v name")
        case (Inl e)
        then have e: "e = TypeError" by (rule getattr_view_error)
        from select_handler_route_error [OF gate verb key Inl]
        have "dispatch (Suc n) st v r = Inl e" by simp
        with e have run: "dispatch (Suc n) st v r = Inl TypeError"
          by (simp del: dispatch.simps)
        from e Inl have "getattr_view v name = Inl TypeError" by simp
        with run key gate verb show ?thesis by blast
      next
        case (Inr h)
        from select_handler_route [OF gate verb key Inr ok]
        have sel: "select_handler v r = Inr (if ok then h else H_invalid_useragent)" .
        show ?thesis
        proof (cases ok)
          case True
          with sel have run:
            "dispatch (Suc n) st v r = call_handler (dispatch n st v r) st v r h"
            by simp
          from True ok have "expected_useragent v r = Inr True" by simp
          with run Inr key gate verb show ?thesis by blast
        next
          case False
          with sel mu
          have "dispatch (Suc n) st v r = Inr (Response (HttpResponseBadRequest mu))"
            by (simp add: call_handler_def)
          then show ?thesis by simp
        qed
      qed
    qed
  qed
qed

theorem dispatch_outcomes_witness:
  "lower ''PROPFIND'' \<notin> set (http_method_names (example_view None ''message'' []))
   \<and> dispatch (Suc 0) \<lparr>ALLOWED_HOSTS = []\<rparr> (example_view None ''message'' [])
        \<lparr>headers = example_headers ''AmazonAPIGateway_G1'' ''G1'', req_method = ''PROPFIND'',
         req_user = Some AnonymousUser\<rparr>
       = Inr (Response HttpResponseNotAllowed)"
  using dispatch_outcomes
    [of 0 "\<lparr>ALLOWED_HOSTS = []\<rparr>" "example_view None ''message'' []"
        "\<lparr>headers = example_headers ''AmazonAPIGateway_G1'' ''G1'', req_method = ''PROPFIND'',
         req_user = Some AnonymousUser\<rparr>"]
  by (simp add: example_defs primitive_defs method_defs dispatch_defs)

text \<open>
  C4 as stated, only success and 400 responses and never a raised error, fails on the
  specification's own scenario: a route key naming no attribute reaches the default
  handler, which raises. The same event with a verb the view does not support gets the
  405 response; with a route key whose value is a number \<open>getattr\<close> raises
  \<open>TypeError\<close>; with a body that decodes to a number the membership test raises
  \<open>TypeError\<close>; and the connect route raises \<open>AttributeError\<close> on a request that
  carries no user.
\<close>

theorem dispatch_raises_not_implemented_counterexample:
  "dispatch (Suc 0) \<lparr>ALLOWED_HOSTS = []\<rparr>
     (example_view None ''message'' [(''action'', JStr ''ping'')])
     \<lparr>headers = example_headers ''AmazonAPIGateway_G1'' ''G1'', req_method = ''POST'',
         req_user = Some AnonymousUser\<rparr>
   = Inl NotImplementedError
   \<and> dispatch (Suc 0) \<lparr>ALLOWED_HOSTS = []\<rparr>
       (example_view None ''message'' [(''action'', JStr ''ping'')])
       \<lparr>headers = example_headers ''AmazonAPIGateway_G1'' ''G1'', req_method = ''PROPFIND'',
         req_user = Some AnonymousUser\<rparr>
     = Inr (Response HttpResponseNotAllowed)
   \<and> dispatch (Suc 0) \<lparr>ALLOWED_HOSTS = []\<rparr>
       (example_view None ''message'' [(''action'', JNum 5)])
       \<lparr>headers = example_headers ''AmazonAPIGateway_G1'' ''G1'', req_method = ''POST'',
         req_user = Some AnonymousUser\<rparr>
     = Inl TypeError
   \<and> dispatch (Suc 0) \<lparr>ALLOWED_HOSTS = []\<rparr>
       ((example_view None ''message'' [])\<lparr>body := JNum 5\<rparr>)
       \<lparr>headers = example_headers ''AmazonAPIGateway_G1'' ''G1'', req_method = ''POST'',
         req_user = Some AnonymousUser\<rparr>
     = Inl TypeError
   \<and> dispatch (Suc 0) \<lparr>ALLOWED_HOSTS = []\<rparr> (example_view None ''connect'' [])
       \<lparr>headers = example_headers ''AmazonAPIGateway_G1'' ''G1''
                    @ example_connection_headers ''https://a.com'', req_method = ''GET'',
         req_user = None\<rparr>
     = Inl AttributeError"
  by (simp add: example_defs primitive_defs method_defs dispatch_defs)

section \<open>The identity checks\<close>

lemma select_invalid_useragent_cases:
  assumes "select_handler v r = Inr H_invalid_useragent"
  shows "expected_headers r \<and> lower (req_method r) \<in> set (http_method_names v)
       \<and> slug v \<noteq> ''connect''
       \<and> (expected_useragent v r = Inr False
           \<or> slug v \<noteq> ''disconnect''
              \<and> (\<exists>kvs name. body v = JObj kvs
                     \<and> map_of kvs (route_selection_key v) = Some name
                     \<and> getattr_view v name = Inr H_invalid_useragent))"
  using assms
  by (cases "body v")
     (auto simp add: select_handler_def key_in_body_def body_item_def
        split: if_splits option.splits sum.splits)

text \<open>
  C2, as amended. When \<open>aws_api_gateway_id\<close> is set (a non-empty string: what the
  \<open>if\<close> of \<open>_expected_useragent\<close> tests), the strict branch compares the header's
  object with a newly built string by identity, so the check returns \<open>True\<close> on every
  event that carries a \<open>User-Agent\<close> header, whatever its value, and the same result
  on any two such events. The identity check therefore never makes \<open>dispatch\<close> bind
  \<open>invalid_useragent\<close>: that handler is bound only on an application route whose route
  key's value itself resolves to it.
\<close>

theorem strict_identity_check_passes:
  assumes "truthy (aws_api_gateway_id v)"
  shows "(\<forall>ua. header r ''User-Agent'' = Inr ua \<longrightarrow> expected_useragent v r = Inr True)
       \<and> (\<forall>r'. has_header r ''User-Agent'' \<and> has_header r' ''User-Agent''
              \<longrightarrow> expected_useragent v r' = expected_useragent v r)
       \<and> (select_handler v r = Inr H_invalid_useragent \<longrightarrow>
            slug v \<noteq> ''connect'' \<and> slug v \<noteq> ''disconnect''
            \<and> (\<exists>kvs name. body v = JObj kvs
                   \<and> map_of kvs (route_selection_key v) = Some name
                   \<and> getattr_view v name = Inr H_invalid_useragent))"
proof (intro conjI allI impI)
  fix ua assume "header r ''User-Agent'' = Inr ua"
  with assms show "expected_useragent v r = Inr True"
    by (rule expected_useragent_strict)
next
  fix r' assume "has_header r ''User-Agent'' \<and> has_header r' ''User-Agent''"
  then obtain ua ua' where "header r ''User-Agent'' = Inr ua"
    and "header r' ''User-Agent'' = Inr ua'"
    by (auto simp add: has_header_iff)
  with assms have "expected_useragent v r = Inr True" and "expected_useragent v r' = Inr True"
    by (simp_all add: expected_useragent_strict)
  then show "expected_useragent v r' = expected_useragent v r" by simp
next
  assume sel: "select_handler v r = Inr H_invalid_useragent"
  note c = select_invalid_useragent_cases [OF sel]
  from c have gate: "expected_headers r" by simp
  from expected_headers_useragent [OF gate] obtain ua
    where "header r ''User-Agent'' = Inr ua" ..
  with assms have pass: "expected_useragent v r = Inr True"
    by (rule expected_useragent_strict)
  from c pass show "slug v \<noteq> ''connect''" by simp
  from c pass show "slug v \<noteq> ''disconnect''" by simp
  from c pass show "\<exists>kvs name. body v = JObj kvs
      \<and> map_of kvs (route_selection_key v) = Some name
      \<and> getattr_view v name = Inr H_invalid_useragent"
    by simp
qed

theorem strict_identity_check_passes_witness:
  "truthy (aws_api_gateway_id (example_view (Some \<lparr>oid = 0, chars = ''G1''\<rparr>) ''disconnect'' []))
   \<and> header \<lparr>headers = example_headers ''curl/8.0'' ''G1'', req_method = ''POST'', req_user = Some AnonymousUser\<rparr> ''User-Agent''
       = Inr \<lparr>oid = 10, chars = ''curl/8.0''\<rparr>
   \<and> expected_useragent (example_view (Some \<lparr>oid = 0, chars = ''G1''\<rparr>) ''disconnect'' [])
        \<lparr>headers = example_headers ''curl/8.0'' ''G1'', req_method = ''POST'', req_user = Some AnonymousUser\<rparr> = Inr True"
  using strict_identity_check_passes
    [of "example_view (Some \<lparr>oid = 0, chars = ''G1''\<rparr>) ''disconnect'' []"
        "\<lparr>headers = example_headers ''curl/8.0'' ''G1'', req_method = ''POST'', req_user = Some AnonymousUser\<rparr>"]
  by (simp add: example_defs header_def truthy_def)

text \<open>
  C2 as stated, \<open>dispatch\<close> never selects \<open>invalid_useragent\<close> in strict mode, fails:
  a route key whose value is \<open>invalid_useragent\<close> resolves to that handler, which then
  answers 400 to an event whose \<open>User-Agent\<close> is the expected one.
\<close>

theorem strict_mode_selects_invalid_useragent_counterexample:
  "truthy (aws_api_gateway_id
     (example_view (Some \<lparr>oid = 0, chars = ''G1''\<rparr>) ''message''
        [(''action'', JStr ''invalid_useragent'')]))
   \<and> select_handler
        (example_view (Some \<lparr>oid = 0, chars = ''G1''\<rparr>) ''message''
           [(''action'', JStr ''invalid_useragent'')])
        \<lparr>headers = example_headers ''AmazonAPIGateway_G1'' ''G1'', req_method = ''POST'', req_user = Some AnonymousUser\<rparr>
       = Inr H_invalid_useragent
   \<and> dispatch (Suc 0) \<lparr>ALLOWED_HOSTS = []\<rparr>
        (example_view (Some \<lparr>oid = 0, chars = ''G1''\<rparr>) ''message''
           [(''action'', JStr ''invalid_useragent'')])
        \<lparr>headers = example_headers ''AmazonAPIGateway_G1'' ''G1'', req_method = ''POST'', req_user = Some AnonymousUser\<rparr>
       = Inr (Response (HttpResponseBadRequest
           [Text ''Unexpected Useragent; Expected AmazonAPIGateway_G1, Received AmazonAPIGateway_G1'']))"
  by (simp add: example_defs primitive_defs method_defs dispatch_defs)

text \<open>
  C1 describes equality with \<open>expected_useragent_prefix + aws_api_gateway_id\<close>. The
  code at a request whose \<open>User-Agent\<close> is \<open>curl/8.0\<close>, with the gateway id \<open>G1\<close>
  configured: \<open>_expected_useragent\<close> returns \<open>True\<close> and the disconnect route
  answers with the success response instead of the 400 of \<open>invalid_useragent\<close>.
\<close>

theorem strict_useragent_accepts_other_agent:
  "chars \<lparr>oid = 10, chars = ''curl/8.0''\<rparr> \<noteq> ''AmazonAPIGateway_'' @ ''G1''
   \<and> expected_useragent (example_view (Some \<lparr>oid = 0, chars = ''G1''\<rparr>) ''disconnect'' [])
        \<lparr>headers = example_headers ''curl/8.0'' ''G1'', req_method = ''POST'', req_user = Some AnonymousUser\<rparr> = Inr True
   \<and> select_handler (example_view (Some \<lparr>oid = 0, chars = ''G1''\<rparr>) ''disconnect'' [])
        \<lparr>headers = example_headers ''curl/8.0'' ''G1'', req_method = ''POST'', req_user = Some AnonymousUser\<rparr>
       = Inr H_disconnect
   \<and> dispatch (Suc 0) \<lparr>ALLOWED_HOSTS = []\<rparr>
        (example_view (Some \<lparr>oid = 0, chars = ''G1''\<rparr>) ''disconnect'' [])
        \<lparr>headers = example_headers ''curl/8.0'' ''G1'', req_method = ''POST'', req_user = Some AnonymousUser\<rparr>
       = Inr (Response (JsonResponse (JObj [])))"
  by (simp add: example_defs primitive_defs method_defs dispatch_defs)

text \<open>
  C9 describes a match of the \<open>X-Amzn-Apigateway-Api-Id\<close> header with the configured
  gateway id. The code at a request whose header is \<open>OTHER\<close>, with the gateway id
  \<open>G1\<close> configured: \<open>_expected_apigateway_id\<close> returns \<open>True\<close>.
\<close>

theorem apigateway_id_check_accepts_other_gateway:
  "chars \<lparr>oid = 11, chars = ''OTHER''\<rparr> \<noteq> ''G1''
   \<and> expected_apigateway_id (example_view (Some \<lparr>oid = 0, chars = ''G1''\<rparr>) ''message'' [])
        \<lparr>headers = example_headers ''AmazonAPIGateway_G1'' ''OTHER'', req_method = ''POST'', req_user = Some AnonymousUser\<rparr>
       = Inr (PBool True)"
  by (simp add: example_defs primitive_defs method_defs)

lemma expected_apigateway_id_unset:
  "aws_api_gateway_id v = None \<Longrightarrow> expected_apigateway_id v r = Inr PNone"
  by (simp add: expected_apigateway_id_def)

lemma expected_apigateway_id_is_identity_test:
  assumes "truthy (aws_api_gateway_id v)" and "aws_api_gateway_id v = Some g"
    and "header r ''X-Amzn-Apigateway-Api-Id'' = Inr h"
  shows "expected_apigateway_id v r = Inr (PBool (oid h \<noteq> oid g))"
  using assms by (simp add: expected_apigateway_id_def truthy_def is_not_def)

lemma expected_useragent_unset:
  assumes "\<not> truthy (aws_api_gateway_id v)" and "header r ''User-Agent'' = Inr ua"
  shows "expected_useragent v r = Inr (sublist (expected_useragent_prefix v) (chars ua))"
  using assms by (simp add: expected_useragent_def str_in_sublist)

end
